theory Spec2Isabelle
  imports Complex_Main "HOL-Library.Multiset"
begin

section \<open>JavaScript strings and numbers\<close>

text \<open>
  A JavaScript string is modelled as a \<^typ>\<open>string\<close>. The model is exact for ASCII text:
  \<open>toLowerCase\<close> maps \<open>A\<close>..\<open>Z\<close> to \<open>a\<close>..\<open>z\<close>, and the whitespace class \<open>\s\<close> of a regular
  expression is tab, line feed, vertical tab, form feed, carriage return and space.
  Numbers that the code computes by division are rationals; \<open>Math.round\<close> rounds half up.
\<close>

definition isUpper :: "char \<Rightarrow> bool" where
  "isUpper c = (let n = (of_char c :: nat) in 65 \<le> n \<and> n \<le> 90)"

definition isLower :: "char \<Rightarrow> bool" where
  "isLower c = (let n = (of_char c :: nat) in 97 \<le> n \<and> n \<le> 122)"

definition lowerChar :: "char \<Rightarrow> char" where
  "lowerChar c = (if isUpper c then char_of ((of_char c :: nat) + 32) else c)"

definition upperChar :: "char \<Rightarrow> char" where
  "upperChar c = (if isLower c then char_of ((of_char c :: nat) - 32) else c)"

definition toLowerCase :: "string \<Rightarrow> string" where
  "toLowerCase s = map lowerChar s"

definition isSpace :: "char \<Rightarrow> bool" where
  "isSpace c = ((of_char c :: nat) \<in> {9, 10, 11, 12, 13, 32})"

fun startsWith :: "string \<Rightarrow> string \<Rightarrow> bool" where
  "startsWith s [] = True"
| "startsWith [] (p # ps) = False"
| "startsWith (c # cs) (p # ps) = (c = p \<and> startsWith cs ps)"

text \<open>\<open>s.includes(t)\<close>: \<open>t\<close> occurs in \<open>s\<close> as a contiguous substring.\<close>

fun str_includes :: "string \<Rightarrow> string \<Rightarrow> bool" where
  "str_includes [] t = (t = [])"
| "str_includes (c # cs) t = (startsWith (c # cs) t \<or> str_includes cs t)"

text \<open>\<open>s.trim()\<close>.\<close>

definition trim :: "string \<Rightarrow> string" where
  "trim s = rev (dropWhile isSpace (rev (dropWhile isSpace s)))"

text \<open>
  \<open>s.split(/\s+/)\<close>: the pieces between maximal runs of whitespace; a run at either end
  leaves an empty piece there, and the empty string splits into one empty piece.
\<close>

function split_ws :: "string \<Rightarrow> string \<Rightarrow> string list" where
  "split_ws cur [] = [rev cur]"
| "split_ws cur (c # cs) =
     (if isSpace c then rev cur # split_ws [] (dropWhile isSpace cs)
      else split_ws (c # cur) cs)"
  by pat_completeness auto
termination
  by (relation "measure (\<lambda>(cur, s). length s)")
     (auto simp: length_dropWhile_le less_Suc_eq_le)

definition split_whitespace :: "string \<Rightarrow> string list" where
  "split_whitespace s = split_ws [] s"

text \<open>\<open>xs.join(sep)\<close> on an array of strings.\<close>

fun join :: "string \<Rightarrow> string list \<Rightarrow> string" where
  "join sep [] = []"
| "join sep [x] = x"
| "join sep (x # y # ys) = x @ sep @ join sep (y # ys)"

text \<open>Decimal rendering of a natural number, as a template literal renders it.\<close>

definition digit :: "nat \<Rightarrow> char" where
  "digit d = char_of (48 + d)"

function showNat :: "nat \<Rightarrow> string" where
  "showNat n = (if n < 10 then [digit n] else showNat (n div 10) @ [digit (n mod 10)])"
  by pat_completeness auto
termination
  by (relation "measure id") auto

definition showInt :: "int \<Rightarrow> string" where
  "showInt i = (if i < 0 then CHR ''-'' # showNat (nat (- i)) else showNat (nat i))"

text \<open>\<open>Math.round\<close>: the nearest integer, a half rounding up.\<close>

definition Math_round :: "rat \<Rightarrow> int" where
  "Math_round x = \<lfloor>x + 1 / 2\<rfloor>"

section \<open>The answer scorer (aiService.js)\<close>

text \<open>
  The knowledge base of \<open>initializeKnowledgeBase\<close>. A lookup \<open>this.knowledgeBase[role]\<close> also
  finds the properties every object inherits; those are objects or functions without
  \<open>keywords\<close> and \<open>explanations\<close>.
\<close>

record roleBase =
  rb_keywords :: "string list"
  rb_concepts :: "string list"
  rb_explanations :: "(string \<times> string) list"

definition knowledgeBase :: "(string \<times> roleBase) list" where
  "knowledgeBase =
    [(''Data Scientist'',
       \<lparr>rb_keywords = [''python'', ''pandas'', ''numpy'', ''scikit-learn'', ''tensorflow'',
                    ''statistics'', ''visualization''],
        rb_concepts = [''data cleaning'', ''feature engineering'', ''model evaluation'',
                    ''cross-validation'', ''hypothesis testing''],
        rb_explanations =
          [(''statistics'',
            ''Statistical understanding is crucial for data interpretation and model validation.''),
           (''machine learning'',
            ''Understanding ML algorithms and their trade-offs is fundamental.''),
           (''python'',
            ''Python is the primary language for data science with rich ecosystem.'')]\<rparr>),
     (''Frontend Developer'',
       \<lparr>rb_keywords = [''html'', ''css'', ''javascript'', ''react'', ''components'', ''state'',
                    ''props''],
        rb_concepts = [''virtual dom'', ''rendering'', ''performance'', ''accessibility'',
                    ''responsive design''],
        rb_explanations =
          [(''javascript'', ''JavaScript is the core language for frontend interactivity.''),
           (''react'', ''React components should be reusable and maintainable.''),
           (''css'',
            ''CSS requires understanding of layout, specificity, and responsive design.'')]\<rparr>),
     (''Backend Developer'',
       \<lparr>rb_keywords = [''api'', ''database'', ''server'', ''node.js'', ''python'', ''java'', ''sql''],
        rb_concepts = [''rest'', ''graphql'', ''orm'', ''scalability'', ''caching'', ''security''],
        rb_explanations =
          [(''api'', ''APIs should be RESTful, versioned, and properly documented.''),
           (''database'', ''Database choice depends on data structure and access patterns.''),
           (''scalability'', ''Systems should scale horizontally with load balancing.'')]\<rparr>),
     (''Product Manager'',
       \<lparr>rb_keywords = [''product'', ''user'', ''market'', ''roadmap'', ''stakeholder'', ''metrics''],
        rb_concepts = [''prioritization'', ''user research'', ''agile'', ''product strategy'',
                    ''go-to-market''],
        rb_explanations =
          [(''prioritization'', ''Features should be prioritized based on value vs effort.''),
           (''user research'', ''Understanding user needs drives product success.''),
           (''metrics'', ''Success should be measured with actionable metrics.'')]\<rparr>)]"

text \<open>The property names every plain object inherits from \<open>Object.prototype\<close>.\<close>

definition objectPrototypeKeys :: "string list" where
  "objectPrototypeKeys =
    [''constructor'', ''__proto__'', ''toString'', ''toLocaleString'', ''valueOf'',
     ''hasOwnProperty'', ''isPrototypeOf'', ''propertyIsEnumerable'', ''__defineGetter__'',
     ''__defineSetter__'', ''__lookupGetter__'', ''__lookupSetter__'']"

datatype 'a property = Own 'a | Inherited | Undefined

definition getProperty :: "(string \<times> 'a) list \<Rightarrow> string \<Rightarrow> 'a property" where
  "getProperty obj k =
     (case map_of obj k of
        Some v \<Rightarrow> Own v
      | None \<Rightarrow> if k \<in> set objectPrototypeKeys then Inherited else Undefined)"

text \<open>\<open>this.knowledgeBase[role] || this.knowledgeBase['Data Scientist']\<close>.\<close>

definition roleBaseOf :: "string \<Rightarrow> roleBase property" where
  "roleBaseOf role =
     (case getProperty knowledgeBase role of
        Undefined \<Rightarrow> getProperty knowledgeBase ''Data Scientist''
      | p \<Rightarrow> p)"

definition containsExamples :: "string \<Rightarrow> bool" where
  "containsExamples answer =
     list_ex (\<lambda>i. str_includes (toLowerCase answer) i)
       [''for example'', ''such as'', ''like when'', ''instance'', ''case study'', ''in practice'']"

definition hasStructure :: "string \<Rightarrow> bool" where
  "hasStructure answer =
     list_ex (\<lambda>i. str_includes (toLowerCase answer) i)
       [''first'', ''second'', ''finally'', ''in conclusion'', ''1.'', ''2.'', ''firstly'',
        ''secondly'']"

definition hasTechnicalTerms :: "string \<Rightarrow> string \<Rightarrow> bool" where
  "hasTechnicalTerms answer role =
     (let kws = (case roleBaseOf role of Own rb \<Rightarrow> rb_keywords rb | _ \<Rightarrow> []);
          answerLower = toLowerCase answer
      in list_ex (\<lambda>k. str_includes answerLower (toLowerCase k)) kws)"

text \<open>
  \<open>getConceptExplanation\<close>. The lookup \<open>explanations?.[key]\<close> finds an inherited property for
  the keys \<open>constructor\<close> and \<open>__proto__\<close>; the template literal then renders that object.
\<close>

definition getConceptExplanation :: "string \<Rightarrow> string \<Rightarrow> string" where
  "getConceptExplanation concept role =
     (let fallback = concept @ '' is an important concept for '' @ role
                       @ '' role. Review fundamentals.''
      in case roleBaseOf role of
           Own rb \<Rightarrow>
             (case getProperty (rb_explanations rb) (toLowerCase concept) of
                Own e \<Rightarrow> if e = [] then fallback else e
              | Inherited \<Rightarrow>
                  if toLowerCase concept = ''constructor''
                  then ''function Object() { [native code] }''
                  else ''[object Object]''
              | Undefined \<Rightarrow> fallback)
         | _ \<Rightarrow> fallback)"

datatype tier = Correct | Partial | Incorrect

record evalResult =
  score :: int
  correctness :: tier
  strengths :: "string list"
  weaknesses :: "string list"
  missingConcepts :: "string list"
  conceptCorrections :: "string list"
  scoreReason :: string

text \<open>The locals of \<open>evaluateAnswerIntelligently\<close>, in the order the code computes them.\<close>

definition wordCount :: "string \<Rightarrow> nat" where
  "wordCount answer = length (split_whitespace answer)"

definition mentioned :: "string \<Rightarrow> string \<Rightarrow> bool" where
  "mentioned answer concept = str_includes (toLowerCase answer) (toLowerCase concept)"

definition coveredConcepts :: "string \<Rightarrow> string list \<Rightarrow> string list" where
  "coveredConcepts answer expectedConcepts = filter (mentioned answer) expectedConcepts"

definition missingOf :: "string \<Rightarrow> string list \<Rightarrow> string list" where
  "missingOf answer expectedConcepts = filter (\<lambda>c. \<not> mentioned answer c) expectedConcepts"

definition conceptsCovered :: "string \<Rightarrow> string list \<Rightarrow> nat" where
  "conceptsCovered answer expectedConcepts = length (coveredConcepts answer expectedConcepts)"

definition conceptScore :: "string \<Rightarrow> string list \<Rightarrow> rat" where
  "conceptScore answer expectedConcepts =
     (if length expectedConcepts > 0
      then (of_nat (conceptsCovered answer expectedConcepts) / of_nat (length expectedConcepts)) * 40
      else 30)"

definition depthScore :: "string \<Rightarrow> rat" where
  "depthScore answer = min 20 ((of_nat (wordCount answer) / 15) * 10)"

definition examplesScore :: "string \<Rightarrow> rat" where
  "examplesScore answer = (if containsExamples answer then 15 else 0)"

definition structureScore :: "string \<Rightarrow> rat" where
  "structureScore answer = (if hasStructure answer then 10 else 0)"

definition technicalScore :: "string \<Rightarrow> string \<Rightarrow> rat" where
  "technicalScore answer role = (if hasTechnicalTerms answer role then 15 else 0)"

definition totalScore :: "string \<Rightarrow> string list \<Rightarrow> string \<Rightarrow> int" where
  "totalScore answer expectedConcepts role =
     min 100 (Math_round (conceptScore answer expectedConcepts + depthScore answer
                + examplesScore answer + structureScore answer + technicalScore answer role))"

definition tierOf :: "int \<Rightarrow> tier" where
  "tierOf s = (if s \<ge> 80 then Correct else if s \<ge> 50 then Partial else Incorrect)"

definition scoreReasons :: "string \<Rightarrow> string list \<Rightarrow> string list" where
  "scoreReasons answer expectedConcepts =
     [if conceptsCovered answer expectedConcepts > 0
      then ''Covered '' @ showNat (conceptsCovered answer expectedConcepts) @ ''/''
             @ showNat (length expectedConcepts) @ '' key concepts''
      else ''Missed all key concepts'']
     @ [if containsExamples answer then ''Good use of examples'' else ''Missing concrete examples'']
     @ (if wordCount answer < 30 then [''Answer too brief'']
        else if wordCount answer > 100 then [''Comprehensive detail''] else [])"

definition evaluateAnswerIntelligently ::
  "string \<Rightarrow> string \<Rightarrow> string list \<Rightarrow> string \<Rightarrow> evalResult" where
  "evaluateAnswerIntelligently question answer expectedConcepts role =
     (let covered = coveredConcepts answer expectedConcepts;
          missing = missingOf answer expectedConcepts;
          hasExamples = containsExamples answer;
          hasStruct = hasStructure answer;
          s = totalScore answer expectedConcepts role;
          reason = ''Score: '' @ showInt s @ ''% - ''
                     @ join '', '' (scoreReasons answer expectedConcepts)
      in if s \<ge> 80 then
           \<lparr>score = s, correctness = Correct,
            strengths = [''Strong understanding demonstrated'',
                         ''Covered key concepts: '' @ join '', '' (take 3 covered)]
                        @ (if hasExamples then [''Excellent use of examples''] else [])
                        @ (if hasStruct then [''Well-structured response''] else []),
            weaknesses = [], missingConcepts = missing, conceptCorrections = [],
            scoreReason = reason\<rparr>
         else if s \<ge> 50 then
           \<lparr>score = s, correctness = Partial, strengths = [],
            weaknesses = [''Partial understanding - needs more depth'']
                         @ (if length missing > 0
                            then [''Missing: '' @ join '', '' (take 3 missing)] else [])
                         @ (if \<not> hasExamples then [''Add concrete examples''] else [])
                         @ (if wordCount answer < 50 then [''Elaborate more''] else []),
            missingConcepts = missing, conceptCorrections = [],
            scoreReason = reason\<rparr>
         else
           \<lparr>score = s, correctness = Incorrect, strengths = [],
            weaknesses = [''Significant gaps in understanding''],
            missingConcepts = missing,
            conceptCorrections =
              map (\<lambda>c. ''Missing: '' @ c @ '' - '' @ getConceptExplanation c role) missing,
            scoreReason = reason\<rparr>)"

text \<open>
  A question of the session as \<open>analyzeSingleAnswerIntelligently\<close> receives it. A field that
  is \<open>null\<close> or absent is \<open>None\<close>.
\<close>

record questionItem =
  q_question :: "string option"
  q_userAnswer :: "string option"
  q_cleanedAnswer :: "string option"
  q_expectedConcepts :: "string list option"

text \<open>\<open>x || d\<close> on a nullable string: the empty string is falsy too.\<close>

definition strOr :: "string option \<Rightarrow> string \<Rightarrow> string" where
  "strOr x d = (case x of None \<Rightarrow> d | Some s \<Rightarrow> if s = [] then d else s)"

record analysis = evalResult +
  questionIndex :: nat
  question :: "string option"
  originalAnswer :: "string option"
  cleanedAnswer :: string
  feedback :: string

text \<open>\<open>xs[0]\<close> inside a template literal: an empty array renders \<open>undefined\<close>.\<close>

definition firstOr :: "string list \<Rightarrow> string" where
  "firstOr xs = (case xs of [] \<Rightarrow> ''undefined'' | x # _ \<Rightarrow> x)"

definition generateDetailedFeedback :: "analysis \<Rightarrow> string" where
  "generateDetailedFeedback a =
     (case correctness a of
        Correct \<Rightarrow>
          [CHR 0xE2, CHR 0x9C, CHR 0x85] @ '' Excellent answer! '' @ firstOr (strengths a) @ ''. ''
          @ (if length (strengths a) > 1
             then ''Particularly strong: '' @ join '', '' (take 2 (drop 1 (strengths a))) @ ''.''
             else [])
      | Partial \<Rightarrow>
          [CHR 0xE2, CHR 0x9A, CHR 0xA0, CHR 0xEF, CHR 0xB8, CHR 0x8F] @ '' Good attempt. ''
          @ firstOr (weaknesses a) @ ''. ''
          @ (if length (missingConcepts a) > 0
             then ''Focus on: '' @ join '', '' (take 3 (missingConcepts a)) @ ''.''
             else [])
      | Incorrect \<Rightarrow>
          [CHR 0xE2, CHR 0x9D, CHR 0x8C] @ '' Needs significant improvement. ''
          @ firstOr (weaknesses a) @ ''.'' @ [CHR 0x0A, CHR 0x0A]
          @ ''Key concepts to review:'' @ [CHR 0x0A]
          @ concat (map (\<lambda>c. [CHR 0xE2, CHR 0x80, CHR 0xA2] @ '' '' @ c @ [CHR 0x0A])
                      (take 3 (missingConcepts a))))"

definition analyzeSingleAnswerIntelligently :: "questionItem \<Rightarrow> string \<Rightarrow> nat \<Rightarrow> analysis" where
  "analyzeSingleAnswerIntelligently q role index =
     (let qtext = strOr (q_question q) [];
          answer = strOr (q_cleanedAnswer q) (strOr (q_userAnswer q) []);
          expectedConcepts = (case q_expectedConcepts q of None \<Rightarrow> [] | Some cs \<Rightarrow> cs);
          orig = strOr (q_userAnswer q) []
      in if answer = [] \<or> length (trim answer) = 0 then
           \<lparr>score = 0, correctness = Incorrect, strengths = [],
            weaknesses = [''No answer provided''], missingConcepts = [],
            conceptCorrections = [], scoreReason = ''No answer given - score 0%'',
            questionIndex = index, question = Some qtext, originalAnswer = Some orig,
            cleanedAnswer = answer,
            feedback = ''Please provide an answer to receive feedback.''\<rparr>
         else
           (let result = evaluateAnswerIntelligently qtext answer expectedConcepts role;
                a = \<lparr>score = score result, correctness = correctness result,
                     strengths = strengths result, weaknesses = weaknesses result,
                     missingConcepts = missingConcepts result,
                     conceptCorrections = conceptCorrections result,
                     scoreReason = scoreReason result,
                     questionIndex = index, question = Some qtext, originalAnswer = Some orig,
                     cleanedAnswer = answer, feedback = []\<rparr>
            in a\<lparr>feedback := generateDetailedFeedback a\<rparr>))"

text \<open>The scenario of the specification: an answer on the bias-variance tradeoff.\<close>

definition scenarioAnswer :: string where
  "scenarioAnswer =
     ''The bias-variance tradeoff means... for example, high bias models underfit.''"

definition scenarioConcepts :: "string list" where
  "scenarioConcepts = [''bias'', ''variance'']"

section \<open>The history store (storage.js)\<close>

text \<open>
  A number as JavaScript computes it: a division by zero gives \<open>NaN\<close> or an infinity instead
  of raising.
\<close>

datatype 'a number = Num 'a | NaN | Infinity | NegInfinity



text \<open>
  A record of the history. \<open>iv_id\<close> and \<open>iv_savedAt\<close> are absent before the store fills them
  in; \<open>iv_score\<close> is \<open>None\<close> where the stored JSON has \<open>null\<close> or no score. The skill vector
  is the object's list of keys and values, in insertion order.
\<close>

record summaryStats =
  correct :: nat
  partial :: nat
  incorrect :: nat

record summary =
  questionsCount :: nat
  answeredCount :: nat
  duration :: int
  sm_knowledgeLevel :: string
  sm_strengths :: "string list"
  sm_weaknesses :: "string list"
  sm_stats :: summaryStats

record interview =
  iv_id :: "string option"
  iv_date :: string
  iv_role :: string
  iv_difficulty :: string
  iv_score :: "int option"
  iv_skills :: "(string \<times> rat number) list option"
  iv_summary :: summary
  iv_savedAt :: "string option"

text \<open>
  The value under the key \<open>interview_trainer_history\<close> of \<open>localStorage\<close>: no value, a text
  that \<open>JSON.parse\<close> rejects, or the JSON text of an array of records (held here as the array
  it parses to). \<open>setItem\<close> raises when the device refuses the text, which depends on the
  text alone (\<open>accepts\<close>). \<open>events\<close> counts the \<open>storage-update\<close> events dispatched.
\<close>

datatype stored = Absent | Unparsable | History "interview list"

record store =
  item :: stored
  accepts :: "interview list \<Rightarrow> bool"
  events :: nat

definition maxHistoryItems :: nat where
  "maxHistoryItems = 50"

text \<open>\<open>initialize\<close> writes outside a \<open>try\<close>: a refused write raises, which is \<open>None\<close> here.\<close>

definition initialize :: "store \<Rightarrow> store option" where
  "initialize st =
     (case item st of
        Absent \<Rightarrow> if accepts st [] then Some (st\<lparr>item := History []\<rparr>) else None
      | _ \<Rightarrow> Some st)"

definition getHistory :: "store \<Rightarrow> interview list" where
  "getHistory st = (case item st of History xs \<Rightarrow> xs | _ \<Rightarrow> [])"

text \<open>
  \<open>saveInterview\<close>. \<open>now\<close> is \<open>new Date().toISOString()\<close> and \<open>freshId\<close> the result of
  \<open>generateId()\<close>. The result is the saved record, or \<open>None\<close> for \<open>null\<close> when the write fails.
\<close>

definition saveInterview ::
  "string \<Rightarrow> string \<Rightarrow> interview \<Rightarrow> store \<Rightarrow> interview option \<times> store" where
  "saveInterview now freshId interviewData st =
     (let history = getHistory st;
          newInterview = interviewData\<lparr>iv_id := Some (strOr (iv_id interviewData) freshId),
                                          iv_savedAt := Some now\<rparr>;
          history1 = newInterview # history;
          history2 = (if length history1 > maxHistoryItems
                      then take maxHistoryItems history1 else history1)
      in if accepts st history2
         then (Some newInterview, st\<lparr>item := History history2, events := events st + 1\<rparr>)
         else (None, st))"

definition getInterview :: "string \<Rightarrow> store \<Rightarrow> interview option" where
  "getInterview ident st = find (\<lambda>i. iv_id i = Some ident) (getHistory st)"

definition deleteInterview :: "string \<Rightarrow> store \<Rightarrow> bool \<times> store" where
  "deleteInterview ident st =
     (let history = getHistory st;
          filtered = filter (\<lambda>i. iv_id i \<noteq> Some ident) history
      in if accepts st filtered
         then (True, st\<lparr>item := History filtered, events := events st + 1\<rparr>)
         else (False, st))"

definition clearHistory :: "store \<Rightarrow> bool \<times> store" where
  "clearHistory st =
     (if accepts st []
      then (True, st\<lparr>item := History [], events := events st + 1\<rparr>)
      else (False, st))"






text \<open>
  \<open>exportData\<close> and \<open>importData\<close>. The exported file holds the text
  \<open>JSON.stringify({history, exportDate, version}, null, 2)\<close>; \<open>JSON.stringify\<close> and \<open>JSON.parse\<close>
  belong to the platform and are parameters here. What \<open>importData\<close> sees of the parsed
  text is whether parsing raised, and whether the value has an array under \<open>history\<close>
  (reading \<open>history\<close> off \<open>null\<close> raises, and is caught like a syntax error).
\<close>

record exportDoc =
  ex_history :: "interview list"
  exportDate :: string
  version :: string

datatype parsed = ParseError | NoHistoryArray | HistoryArray "interview list"


definition importData :: "(string \<Rightarrow> parsed) \<Rightarrow> string \<Rightarrow> store \<Rightarrow> bool \<times> store" where
  "importData JSON_parse jsonData st =
     (case JSON_parse jsonData of
        HistoryArray h \<Rightarrow>
          if accepts st h
          then (True, st\<lparr>item := History h, events := events st + 1\<rparr>)
          else (False, st)
      | _ \<Rightarrow> (False, st))"

section \<open>The transcript cleaner and the session report (aiService.js)\<close>

definition isDigit :: "char \<Rightarrow> bool" where
  "isDigit c = (let n = (of_char c :: nat) in 48 \<le> n \<and> n \<le> 57)"

text \<open>The class \<open>\w\<close> and the assertion \<open>\b\<close> between two neighbouring positions.\<close>

definition isWordChar :: "char \<Rightarrow> bool" where
  "isWordChar c = (isUpper c \<or> isLower c \<or> isDigit c \<or> c = CHR ''_'')"

definition headOpt :: "string \<Rightarrow> char option" where
  "headOpt s = (case s of [] \<Rightarrow> None | c # _ \<Rightarrow> Some c)"

definition lastOpt :: "string \<Rightarrow> char option" where
  "lastOpt s = (if s = [] then None else Some (last s))"

definition wordBoundary :: "char option \<Rightarrow> char option \<Rightarrow> bool" where
  "wordBoundary prev next =
     ((case prev of None \<Rightarrow> False | Some c \<Rightarrow> isWordChar c)
      \<noteq> (case next of None \<Rightarrow> False | Some c \<Rightarrow> isWordChar c))"

definition fillers :: "string list" where
  "fillers = [''um'', ''uh'', ''ah'', ''er'', ''like'', ''you know'', ''sort of'', ''kind of'',
              ''actually'', ''basically'']"

text \<open>
  One attempt of \<open>/\b(um|uh|...|basically)\b/gi\<close> at the start of \<open>s\<close>, where \<open>prev\<close> is the
  character before it: the length of the match, the alternatives tried in order.
\<close>

definition matchFiller :: "char option \<Rightarrow> string \<Rightarrow> nat option" where
  "matchFiller prev s =
     (if wordBoundary prev (headOpt s)
      then map_option length
             (find (\<lambda>f. startsWith (toLowerCase (take (length f) s)) f
                         \<and> length f \<le> length s
                         \<and> wordBoundary (lastOpt (take (length f) s)) (headOpt (drop (length f) s)))
                   fillers)
      else None)"

text \<open>\<open>.replace(/\b(um|...)\b/gi, '')\<close>: a match of length \<open>n\<close> at \<open>c # cs\<close> leaves \<open>drop (n - 1) cs\<close>.\<close>

function removeFillers :: "char option \<Rightarrow> string \<Rightarrow> string" where
  "removeFillers prev [] = []"
| "removeFillers prev (c # cs) =
     (case matchFiller prev (c # cs) of
        Some n \<Rightarrow> removeFillers (lastOpt (take n (c # cs))) (drop (n - 1) cs)
      | None \<Rightarrow> c # removeFillers (Some c) cs)"
  by pat_completeness auto
termination
  by (relation "measure (\<lambda>(prev, s). length s)") auto

text \<open>\<open>.replace(/\s+/g, ' ')\<close>.\<close>

function collapseSpaces :: "string \<Rightarrow> string" where
  "collapseSpaces [] = []"
| "collapseSpaces (c # cs) =
     (if isSpace c then CHR '' '' # collapseSpaces (dropWhile isSpace cs)
      else c # collapseSpaces cs)"
  by pat_completeness auto
termination
  by (relation "measure length") (auto simp: length_dropWhile_le less_Suc_eq_le)

text \<open>\<open>.replace(/\s+([.,!?])/g, '$1')\<close>.\<close>

function dropSpaceBeforePunct :: "string \<Rightarrow> string" where
  "dropSpaceBeforePunct [] = []"
| "dropSpaceBeforePunct (c # cs) =
     (if isSpace c then
        (case dropWhile isSpace cs of
           [] \<Rightarrow> c # dropSpaceBeforePunct cs
         | p # rest \<Rightarrow>
             if p \<in> set ''.,!?'' then p # dropSpaceBeforePunct rest
             else c # dropSpaceBeforePunct cs)
      else c # dropSpaceBeforePunct cs)"
  by pat_completeness auto
termination
proof (relation "measure length", goal_cases)
  case 1
  show ?case by simp
next
  case (2 c cs)
  show ?case by simp
next
  case (3 c cs p rest)
  have "length (dropWhile isSpace cs) \<le> length cs"
    by (rule length_dropWhile_le)
  with 3 show ?case by simp
next
  case (4 c cs p rest)
  show ?case by simp
next
  case (5 c cs)
  show ?case by simp
qed

text \<open>\<open>.replace(/([.!?])\s*([a-z])/g, (match, p1, p2) => p1 + ' ' + p2.toUpperCase())\<close>.\<close>

function capitalizeSentences :: "string \<Rightarrow> string" where
  "capitalizeSentences [] = []"
| "capitalizeSentences (c # cs) =
     (if c \<in> set ''.!?'' then
        (case dropWhile isSpace cs of
           [] \<Rightarrow> c # capitalizeSentences cs
         | l # rest \<Rightarrow>
             if isLower l then c # CHR '' '' # upperChar l # capitalizeSentences rest
             else c # capitalizeSentences cs)
      else c # capitalizeSentences cs)"
  by pat_completeness auto
termination
proof (relation "measure length", goal_cases)
  case 1
  show ?case by simp
next
  case (2 c cs)
  show ?case by simp
next
  case (3 c cs l rest)
  have "length (dropWhile isSpace cs) \<le> length cs"
    by (rule length_dropWhile_le)
  with 3 show ?case by simp
next
  case (4 c cs l rest)
  show ?case by simp
next
  case (5 c cs)
  show ?case by simp
qed

text \<open>\<open>.replace(/^[a-z]/, c => c.toUpperCase())\<close>.\<close>

definition capitalizeFirst :: "string \<Rightarrow> string" where
  "capitalizeFirst s = (case s of [] \<Rightarrow> [] | c # cs \<Rightarrow> upperChar c # cs)"

definition cleanTranscript :: "string \<Rightarrow> string" where
  "cleanTranscript rawText =
     (if rawText = [] then []
      else
        (let cleaned = trim (capitalizeFirst (capitalizeSentences (dropSpaceBeforePunct
                         (collapseSpaces (removeFillers None rawText)))))
         in if length cleaned > 0 \<and> last cleaned \<notin> set ''.!?'' then cleaned @ ''.''
            else cleaned))"

text \<open>The report of a session. \<open>overallScore\<close> is \<open>NaN\<close> when a mean is taken of no scores.\<close>

record report =
  overallScore :: "int number"
  scoreExplanation :: string
  rp_strengths :: "string list"
  rp_weaknesses :: "string list"
  rp_missingConcepts :: "string list"
  suggestions :: "string list"
  knowledgeLevel :: string
  questionAnalyses :: "analysis list"
  rp_stats :: summaryStats

record sessionData =
  sd_role :: "string option"
  sd_questions :: "questionItem list option"

text \<open>\<open>[...new Set(arr)]\<close>: the first occurrence of each element, in order.\<close>

fun deduplicateArray :: "string list \<Rightarrow> string list" where
  "deduplicateArray [] = []"
| "deduplicateArray (x # xs) = x # deduplicateArray (filter (\<lambda>y. y \<noteq> x) xs)"

text \<open>\<open>x >= k\<close> and the rendering of \<open>x\<close> in a template literal.\<close>

definition atLeast :: "int number \<Rightarrow> int \<Rightarrow> bool" where
  "atLeast x k = (case x of Num v \<Rightarrow> v \<ge> k | Infinity \<Rightarrow> True | _ \<Rightarrow> False)"

definition showNumber :: "int number \<Rightarrow> string" where
  "showNumber x =
     (case x of Num v \<Rightarrow> showInt v | NaN \<Rightarrow> ''NaN'' | Infinity \<Rightarrow> ''Infinity''
      | NegInfinity \<Rightarrow> ''-Infinity'')"

definition meanScore :: "analysis list \<Rightarrow> int number" where
  "meanScore analyses =
     (if length analyses = 0 then NaN
      else Num (Math_round (of_int (sum_list (map score analyses)) / of_nat (length analyses))))"

definition determineKnowledgeLevel :: "int number \<Rightarrow> analysis list \<Rightarrow> string" where
  "determineKnowledgeLevel overall analyses =
     (if length analyses = 0 then ''Beginner''
      else
        (let avgDepth = (of_nat (sum_list (map (\<lambda>a. length (cleanedAnswer a)) analyses)) :: rat)
                          / of_nat (length analyses)
         in if atLeast overall 85 \<and> avgDepth > 150 then ''Expert''
            else if atLeast overall 70 \<and> avgDepth > 100 then ''Advanced''
            else if atLeast overall 50 \<and> avgDepth > 60 then ''Intermediate''
            else ''Beginner''))"

definition generateIntelligentReport :: "analysis list \<Rightarrow> report" where
  "generateIntelligentReport analyses =
     (let overall = meanScore analyses;
          correctCount = length (filter (\<lambda>a. correctness a = Correct) analyses);
          partialCount = length (filter (\<lambda>a. correctness a = Partial) analyses);
          incorrectCount = length (filter (\<lambda>a. correctness a = Incorrect) analyses);
          allStrengths = concat (map strengths analyses);
          allWeaknesses = concat (map weaknesses analyses);
          allMissingConcepts = deduplicateArray (concat (map missingConcepts analyses));
          explanation =
            ''Overall Score: '' @ showNumber overall @ ''%'' @ [CHR 0x0A, CHR 0x0A]
            @ ''Breakdown:'' @ [CHR 0x0A]
            @ [CHR 0xE2, CHR 0x9C, CHR 0x85] @ '' Correct answers: '' @ showNat correctCount
            @ [CHR 0x0A]
            @ [CHR 0xE2, CHR 0x9A, CHR 0xA0, CHR 0xEF, CHR 0xB8, CHR 0x8F]
            @ '' Partially correct: '' @ showNat partialCount @ [CHR 0x0A]
            @ [CHR 0xE2, CHR 0x9D, CHR 0x8C] @ '' Needs improvement: '' @ showNat incorrectCount
            @ [CHR 0x0A, CHR 0x0A]
            @ (if atLeast overall 80
               then ''Strong performance! You demonstrated good understanding of most concepts.''
               else if atLeast overall 60
               then ''Solid foundation but needs reinforcement in key areas.''
               else ''Significant gaps identified. Focus on fundamentals.'')
            @ (if length allMissingConcepts > 0
               then [CHR 0x0A, CHR 0x0A] @ ''Priority concepts to review:'' @ [CHR 0x0A]
                    @ concat (map (\<lambda>c. [CHR 0xE2, CHR 0x80, CHR 0xA2] @ '' '' @ c @ [CHR 0x0A])
                                (take 5 allMissingConcepts))
               else []);
          sugg1 = (if incorrectCount > 0
                   then [''Review fundamentals: '' @ join '', '' (take 3 allMissingConcepts)]
                   else [])
                  @ (if list_ex (\<lambda>a. \<not> containsExamples (cleanedAnswer a)) analyses
                     then [''Include concrete examples in your answers''] else [])
                  @ (if list_ex (\<lambda>a. length (cleanedAnswer a) < 50) analyses
                     then [''Provide more detailed, elaborated responses''] else []);
          sugg2 = (if length sugg1 < 3
                   then sugg1 @ [''Practice with timed mock interviews'',
                                 ''Study role-specific case studies'']
                   else sugg1)
      in \<lparr>overallScore = overall,
          scoreExplanation = explanation,
          rp_strengths = take 5 (deduplicateArray allStrengths),
          rp_weaknesses = take 5 (deduplicateArray allWeaknesses),
          rp_missingConcepts = take 5 allMissingConcepts,
          suggestions = take 5 sugg2,
          knowledgeLevel = determineKnowledgeLevel overall analyses,
          questionAnalyses = analyses,
          rp_stats = \<lparr>correct = correctCount, partial = partialCount,
                       incorrect = incorrectCount\<rparr>\<rparr>)"

definition getEmptyEvaluation :: report where
  "getEmptyEvaluation =
     \<lparr>overallScore = Num 0,
      scoreExplanation = ''No answers provided for evaluation'',
      rp_strengths = [''Complete an interview first''],
      rp_weaknesses = [''No data available''],
      rp_missingConcepts = [],
      suggestions = [''Start a new interview session''],
      knowledgeLevel = ''Not assessed'',
      questionAnalyses = [],
      rp_stats = \<lparr>correct = 0, partial = 0, incorrect = 0\<rparr>\<rparr>"

definition getFallbackEvaluation :: "questionItem list \<Rightarrow> report" where
  "getFallbackEvaluation qs =
     generateIntelligentReport
       (map (\<lambda>(i, q).
               \<lparr>score = 50, correctness = Partial, strengths = [''Answer provided''],
                weaknesses = [''Could be more detailed''],
                missingConcepts = (case q_expectedConcepts q of None \<Rightarrow> [] | Some cs \<Rightarrow> cs),
                conceptCorrections = [], scoreReason = ''Partial answer - needs more detail'',
                questionIndex = i, question = q_question q, originalAnswer = None,
                cleanedAnswer = strOr (q_userAnswer q) [],
                feedback = ''Review the concepts mentioned.''\<rparr>)
            (enumerate 0 qs))"

definition analyzeAllAnswers :: "string option \<Rightarrow> questionItem list \<Rightarrow> analysis list" where
  "analyzeAllAnswers role qs =
     map (\<lambda>(i, q). analyzeSingleAnswerIntelligently q (strOr role ''Data Scientist'') i)
         (enumerate 0 qs)"

text \<open>
  \<open>evaluateInterview\<close>. Its \<open>try\<close> block raises only on ill-typed session data (an answer
  that is not a string, say), which the types here exclude; \<open>getFallbackEvaluation\<close> is
  what the \<open>catch\<close> would return.
\<close>

definition evaluateInterview :: "sessionData option \<Rightarrow> report" where
  "evaluateInterview sessionData =
     (case sessionData of
        None \<Rightarrow> getEmptyEvaluation
      | Some sd \<Rightarrow>
          (case sd_questions sd of
             None \<Rightarrow> getEmptyEvaluation
           | Some qs \<Rightarrow>
               if length qs = 0 then getEmptyEvaluation
               else
                 (let cleanedQuestions =
                        map (\<lambda>q. q\<lparr>q_cleanedAnswer :=
                                      Some (cleanTranscript (strOr (q_userAnswer q) []))\<rparr>) qs
                  in generateIntelligentReport
                       (analyzeAllAnswers (sd_role sd) cleanedQuestions))))"

section \<open>Saving the result of a session (interview engine)\<close>

text \<open>
  \<open>Math.min(100, baseScore + jitter)\<close>, where \<open>jitter\<close> comes from one draw of
  \<open>Math.random()\<close>.
\<close>

definition skillValue :: "int number \<Rightarrow> rat \<Rightarrow> rat number" where
  "skillValue baseScore jitter =
     (case baseScore of
        Num b \<Rightarrow> Num (min 100 (of_int b + jitter))
      | NaN \<Rightarrow> NaN
      | Infinity \<Rightarrow> Num 100
      | NegInfinity \<Rightarrow> NegInfinity)"

text \<open>\<open>extractSkills\<close>; \<open>r1\<close> to \<open>r4\<close> are the four draws of \<open>Math.random()\<close>, in order.\<close>

definition extractSkills ::
  "report \<Rightarrow> rat \<Rightarrow> rat \<Rightarrow> rat \<Rightarrow> rat \<Rightarrow> (string \<times> rat number) list" where
  "extractSkills evaluation r1 r2 r3 r4 =
     (let baseScore = overallScore evaluation
      in [(''technical'', skillValue baseScore (r1 * 10 - 5)),
          (''communication'', skillValue baseScore (r2 * 15 - 7)),
          (''problemSolving'', skillValue baseScore (r3 * 10 - 5)),
          (''experience'', skillValue baseScore (r4 * 20 - 10))])"

record engineState =
  sessionId :: "string option"
  es_role :: string
  es_difficulty :: string
  startTime :: int

datatype error = TypeError

text \<open>
  \<open>saveInterviewResult\<close>. \<open>nowIso\<close> is \<open>new Date().toISOString()\<close> at the construction of the
  record, \<open>nowMs\<close> is \<open>Date.now()\<close>, \<open>savedIso\<close> and \<open>freshId\<close> are the date and the identifier
  the store draws. Reading \<open>length\<close> off absent questions raises. A score that is not a
  finite number is written to the store as \<open>null\<close>.
\<close>

definition saveInterviewResult ::
  "engineState \<Rightarrow> string \<Rightarrow> int \<Rightarrow> string \<Rightarrow> string \<Rightarrow> rat \<Rightarrow> rat \<Rightarrow> rat \<Rightarrow> rat
     \<Rightarrow> report \<Rightarrow> sessionData \<Rightarrow> store \<Rightarrow> error + store" where
  "saveInterviewResult state nowIso nowMs savedIso freshId r1 r2 r3 r4 evaluation sd st =
     (case sd_questions sd of
        None \<Rightarrow> Inl TypeError
      | Some qs \<Rightarrow>
          (let interviewData =
                 \<lparr>iv_id = sessionId state,
                  iv_date = nowIso,
                  iv_role = es_role state,
                  iv_difficulty = es_difficulty state,
                  iv_score = (case overallScore evaluation of Num v \<Rightarrow> Some v | _ \<Rightarrow> None),
                  iv_skills = Some (extractSkills evaluation r1 r2 r3 r4),
                  iv_summary =
                    \<lparr>questionsCount = length qs,
                     answeredCount = length (filter (\<lambda>q. strOr (q_userAnswer q) [] \<noteq> []) qs),
                     duration = nowMs - startTime state,
                     sm_knowledgeLevel = knowledgeLevel evaluation,
                     sm_strengths = take 3 (rp_strengths evaluation),
                     sm_weaknesses = take 3 (rp_weaknesses evaluation),
                     sm_stats = rp_stats evaluation\<rparr>,
                  iv_savedAt = None\<rparr>
           in Inr (snd (saveInterview savedIso freshId interviewData st))))"

section \<open>Questions from the remote service (aiService.js)\<close>

text \<open>
  A value that \<open>JSON.parse\<close> returns. An object is the list of its own properties, each name
  once.
\<close>

datatype json =
  JNull | JBool bool | JNumber rat | JString string | JArray "json list"
  | JObject "(string \<times> json) list"

definition truthy :: "json \<Rightarrow> bool" where
  "truthy v =
     (case v of JNull \<Rightarrow> False | JBool b \<Rightarrow> b | JNumber r \<Rightarrow> r \<noteq> 0 | JString s \<Rightarrow> s \<noteq> []
      | JArray _ \<Rightarrow> True | JObject _ \<Rightarrow> True)"

text \<open>
  \<open>q.name\<close> for one of the names \<open>question\<close>, \<open>expectedConcepts\<close>, \<open>difficulty\<close>: reading it off
  \<open>null\<close> raises, a value that is not an object has no such property.
\<close>

definition getField :: "json \<Rightarrow> string \<Rightarrow> error + json option" where
  "getField q name =
     (case q of JNull \<Rightarrow> Inl TypeError | JObject kvs \<Rightarrow> Inr (map_of kvs name) | _ \<Rightarrow> Inr None)"

text \<open>\<open>.replace(/<[^>]*>/g, '')\<close>.\<close>

function stripTags :: "string \<Rightarrow> string" where
  "stripTags [] = []"
| "stripTags (c # cs) =
     (if c = CHR ''<'' then
        (case dropWhile (\<lambda>d. d \<noteq> CHR ''>'') cs of
           [] \<Rightarrow> c # stripTags cs
         | g # rest \<Rightarrow> stripTags rest)
      else c # stripTags cs)"
  by pat_completeness auto
termination
proof (relation "measure length", goal_cases)
  case 1
  show ?case by simp
next
  case (2 c cs)
  show ?case by simp
next
  case (3 c cs g rest)
  have "length (dropWhile (\<lambda>d. d \<noteq> CHR ''>'') cs) \<le> length cs"
    by (rule length_dropWhile_le)
  with 3 show ?case by simp
next
  case (4 c cs)
  show ?case by simp
qed

text \<open>\<open>.replace(/[^\x20-\x7E]/g, '')\<close>.\<close>

definition removeNonPrintable :: "string \<Rightarrow> string" where
  "removeNonPrintable s = filter (\<lambda>c. let n = (of_char c :: nat) in 32 \<le> n \<and> n \<le> 126) s"

text \<open>
  \<open>response.match(/\[[\s\S]*\]/)\<close>: from the first \<open>[\<close> to the last \<open>]\<close> after it, if there is
  one.
\<close>

definition matchArray :: "string \<Rightarrow> string option" where
  "matchArray response =
     (case dropWhile (\<lambda>c. c \<noteq> CHR ''['') response of
        [] \<Rightarrow> None
      | b # body \<Rightarrow>
          if CHR '']'' \<in> set body
          then Some (b # rev (dropWhile (\<lambda>c. c \<noteq> CHR '']'') (rev body)))
          else None)"

text \<open>
  \<open>sanitizeText\<close>. \<open>ToString\<close> is the platform's \<open>String(v)\<close> for a value that is not a string.
\<close>

definition sanitizeText :: "(json \<Rightarrow> string) \<Rightarrow> json \<Rightarrow> string" where
  "sanitizeText ToString text =
     (if \<not> truthy text then []
      else trim (stripTags (case text of JString s \<Rightarrow> s | v \<Rightarrow> ToString v)))"

record generatedQuestion =
  gq_question :: string
  gq_expectedConcepts :: "string list"
  gq_difficulty :: json





text \<open>The conversion of one parsed question inside \<open>parseQuestions\<close>.\<close>

definition convertQuestion :: "(json \<Rightarrow> string) \<Rightarrow> json \<Rightarrow> error + generatedQuestion" where
  "convertQuestion ToString q =
     (case getField q ''question'' of
        Inl e \<Rightarrow> Inl e
      | Inr qv \<Rightarrow>
          (case getField q ''expectedConcepts'' of
             Inl e \<Rightarrow> Inl e
           | Inr cv \<Rightarrow>
               (case getField q ''difficulty'' of
                  Inl e \<Rightarrow> Inl e
                | Inr dv \<Rightarrow>
                    (let qtext = sanitizeText ToString
                           (case qv of None \<Rightarrow> JString [] | Some v \<Rightarrow> if truthy v then v else JString []);
                         diff = (case dv of None \<Rightarrow> JString ''mid''
                                 | Some v \<Rightarrow> if truthy v then v else JString ''mid'')
                     in case cv of
                          None \<Rightarrow>
                            Inr \<lparr>gq_question = qtext, gq_expectedConcepts = [], gq_difficulty = diff\<rparr>
                        | Some v \<Rightarrow>
                            if \<not> truthy v
                            then Inr \<lparr>gq_question = qtext, gq_expectedConcepts = [],
                                      gq_difficulty = diff\<rparr>
                            else (case v of
                                    JArray cs \<Rightarrow>
                                      Inr \<lparr>gq_question = qtext,
                                           gq_expectedConcepts = map (sanitizeText ToString) cs,
                                           gq_difficulty = diff\<rparr>
                                  | _ \<Rightarrow> Inl TypeError)))))"

fun convertAll :: "(json \<Rightarrow> string) \<Rightarrow> json list \<Rightarrow> error + generatedQuestion list" where
  "convertAll ToString [] = Inr []"
| "convertAll ToString (q # qs) =
     (case convertQuestion ToString q of
        Inl e \<Rightarrow> Inl e
      | Inr g \<Rightarrow> (case convertAll ToString qs of Inl e \<Rightarrow> Inl e | Inr gs \<Rightarrow> Inr (g # gs)))"

text \<open>
  The \<open>try\<close> block of \<open>parseQuestions\<close>: \<open>Inl\<close> is an exception raised in it. \<open>JSON_parse\<close> is
  the platform's parser, \<open>None\<close> where it raises a syntax error. A parsed value that is not
  an array has no \<open>slice\<close> whose result has a \<open>map\<close>, which raises as well.
\<close>

datatype parseFailure = NoJsonFound | JsonSyntaxError | ConversionError

definition tryParseQuestions ::
  "(string \<Rightarrow> json option) \<Rightarrow> (json \<Rightarrow> string) \<Rightarrow> string \<Rightarrow> nat
     \<Rightarrow> parseFailure + generatedQuestion list" where
  "tryParseQuestions JSON_parse ToString response cnt =
     (case matchArray response of
        None \<Rightarrow> Inl NoJsonFound
      | Some jsonMatch \<Rightarrow>
          (case JSON_parse (removeNonPrintable (stripTags jsonMatch)) of
             None \<Rightarrow> Inl JsonSyntaxError
           | Some (JArray questions) \<Rightarrow>
               (case convertAll ToString (take cnt questions) of
                  Inl e \<Rightarrow> Inl ConversionError
                | Inr gs \<Rightarrow> Inr gs)
           | Some _ \<Rightarrow> Inl ConversionError))"





section \<open>Sequences of store operations and sample data\<close>

datatype storeOp =
  OpSave string string interview | OpDelete string | OpClear | OpImport string

fun applyOp :: "(string \<Rightarrow> parsed) \<Rightarrow> storeOp \<Rightarrow> store \<Rightarrow> store" where
  "applyOp JSON_parse (OpSave now freshId d) st = snd (saveInterview now freshId d st)"
| "applyOp JSON_parse (OpDelete ident) st = snd (deleteInterview ident st)"
| "applyOp JSON_parse OpClear st = snd (clearHistory st)"
| "applyOp JSON_parse (OpImport jsonData) st = snd (importData JSON_parse jsonData st)"

fun runOps :: "(string \<Rightarrow> parsed) \<Rightarrow> storeOp list \<Rightarrow> store \<Rightarrow> store" where
  "runOps JSON_parse [] st = st"
| "runOps JSON_parse (op # ops) st = runOps JSON_parse ops (applyOp JSON_parse op st)"

definition isImport :: "storeOp \<Rightarrow> bool" where
  "isImport op = (case op of OpImport _ \<Rightarrow> True | _ \<Rightarrow> False)"

text \<open>A record with a given identifier and score, and a device that accepts every write.\<close>

definition sampleInterview :: "string \<Rightarrow> int \<Rightarrow> interview" where
  "sampleInterview ident s =
     \<lparr>iv_id = Some ident, iv_date = ''2024-01-01T00:00:00.000Z'', iv_role = ''Data Scientist'',
      iv_difficulty = ''mid'', iv_score = Some s, iv_skills = None,
      iv_summary = \<lparr>questionsCount = 0, answeredCount = 0, duration = 0,
                     sm_knowledgeLevel = ''Beginner'', sm_strengths = [], sm_weaknesses = [],
                     sm_stats = \<lparr>correct = 0, partial = 0, incorrect = 0\<rparr>\<rparr>,
      iv_savedAt = Some ''2024-01-01T00:00:00.000Z''\<rparr>"

definition sampleStore :: "interview list \<Rightarrow> store" where
  "sampleStore xs = \<lparr>item = History xs, accepts = (\<lambda>h. True), events = 0\<rparr>"

section \<open>Properties of the answer scorer\<close>

lemma Math_round_nonneg: "0 \<le> x \<Longrightarrow> 0 \<le> Math_round x"
  by (simp add: Math_round_def)

lemma conceptScore_nonneg: "0 \<le> conceptScore a cs"
  by (simp add: conceptScore_def)

lemma depthScore_nonneg: "0 \<le> depthScore a"
  by (simp add: depthScore_def)

lemma examplesScore_nonneg: "0 \<le> examplesScore a"
  by (simp add: examplesScore_def)

lemma structureScore_nonneg: "0 \<le> structureScore a"
  by (simp add: structureScore_def)

lemma technicalScore_nonneg: "0 \<le> technicalScore a r"
  by (simp add: technicalScore_def)

lemma totalScore_range: "0 \<le> totalScore a cs r \<and> totalScore a cs r \<le> 100"
proof -
  have "0 \<le> conceptScore a cs + depthScore a + examplesScore a + structureScore a
            + technicalScore a r"
    using conceptScore_nonneg [of a cs] depthScore_nonneg [of a] examplesScore_nonneg [of a]
      structureScore_nonneg [of a] technicalScore_nonneg [of a r]
    by linarith
  then show ?thesis
    unfolding totalScore_def using Math_round_nonneg by simp
qed

lemma evaluate_score: "score (evaluateAnswerIntelligently q a cs r) = totalScore a cs r"
  by (simp add: evaluateAnswerIntelligently_def Let_def)

lemma evaluate_tier:
  "correctness (evaluateAnswerIntelligently q a cs r) = tierOf (totalScore a cs r)"
  by (simp add: evaluateAnswerIntelligently_def Let_def tierOf_def)

text \<open>
  Claim C1. For every question, answer, expected-concept list and role the score that
  \<open>evaluateAnswerIntelligently\<close> returns lies between 0 and 100, and the tier it returns is
  determined by that score alone: correct from 80 up, partial from 50 to 79, incorrect
  below 50; so 79 is partial, 80 correct, 49 incorrect and 50 partial.
\<close>

theorem score_in_range_and_tier_by_threshold:
  "0 \<le> score (evaluateAnswerIntelligently q a cs r)
   \<and> score (evaluateAnswerIntelligently q a cs r) \<le> 100
   \<and> correctness (evaluateAnswerIntelligently q a cs r)
       = (if score (evaluateAnswerIntelligently q a cs r) \<ge> 80 then Correct
          else if score (evaluateAnswerIntelligently q a cs r) \<ge> 50 then Partial
          else Incorrect)
   \<and> correctness (evaluateAnswerIntelligently q a cs r)
       = tierOf (score (evaluateAnswerIntelligently q a cs r))
   \<and> tierOf 79 = Partial \<and> tierOf 80 = Correct \<and> tierOf 49 = Incorrect \<and> tierOf 50 = Partial"
  using totalScore_range [of a cs r]
  by (simp add: evaluate_score evaluate_tier tierOf_def)

subsection \<open>The bias-variance scenario\<close>

lemma scenario_covered:
  "coveredConcepts scenarioAnswer scenarioConcepts = [''bias'', ''variance'']"
  unfolding scenarioAnswer_def scenarioConcepts_def by code_simp

lemma scenario_conceptScore: "conceptScore scenarioAnswer scenarioConcepts = 40"
  unfolding scenarioAnswer_def scenarioConcepts_def by code_simp

lemma scenario_depthScore: "depthScore scenarioAnswer = 20 / 3"
  unfolding scenarioAnswer_def by code_simp

lemma scenario_examplesScore: "examplesScore scenarioAnswer = 15"
  unfolding scenarioAnswer_def by code_simp

lemma scenario_structureScore: "structureScore scenarioAnswer = 0"
  unfolding scenarioAnswer_def by code_simp

lemma scenario_no_keyword:
  "list_all (\<lambda>(r, rb). \<not> list_ex (\<lambda>k. str_includes (toLowerCase scenarioAnswer) (toLowerCase k))
                              (rb_keywords rb)) knowledgeBase"
  unfolding scenarioAnswer_def by code_simp

lemma roleBaseOf_cases:
  "roleBaseOf r = Inherited \<or> (\<exists>rb. roleBaseOf r = Own rb \<and> (\<exists>n. (n, rb) \<in> set knowledgeBase))"
proof (cases "map_of knowledgeBase r")
  case None
  have ds: "map_of knowledgeBase ''Data Scientist'' \<noteq> None"
    by (simp add: knowledgeBase_def)
  then obtain rb where rb: "map_of knowledgeBase ''Data Scientist'' = Some rb"
    by blast
  then have "(''Data Scientist'', rb) \<in> set knowledgeBase"
    by (rule map_of_SomeD)
  with None rb show ?thesis
    by (auto simp: roleBaseOf_def getProperty_def)
next
  case (Some rb)
  then have "(r, rb) \<in> set knowledgeBase"
    by (rule map_of_SomeD)
  with Some show ?thesis
    by (auto simp: roleBaseOf_def getProperty_def)
qed

lemma scenario_technicalScore: "technicalScore scenarioAnswer r = 0"
proof -
  have none: "\<And>n rb. (n, rb) \<in> set knowledgeBase \<Longrightarrow>
      \<not> list_ex (\<lambda>k. str_includes (toLowerCase scenarioAnswer) (toLowerCase k)) (rb_keywords rb)"
    using scenario_no_keyword by (auto simp: list_all_iff)
  from roleBaseOf_cases [of r] have "\<not> hasTechnicalTerms scenarioAnswer r"
  proof
    assume "roleBaseOf r = Inherited"
    then show ?thesis by (simp add: hasTechnicalTerms_def)
  next
    assume "\<exists>rb. roleBaseOf r = Own rb \<and> (\<exists>n. (n, rb) \<in> set knowledgeBase)"
    then obtain rb n where "roleBaseOf r = Own rb" "(n, rb) \<in> set knowledgeBase"
      by blast
    with none [of n rb] show ?thesis by (simp add: hasTechnicalTerms_def)
  qed
  then show ?thesis by (simp add: technicalScore_def)
qed

lemma scenario_total: "totalScore scenarioAnswer scenarioConcepts r = 62"
proof -
  have "Math_round (40 + 20 / 3 + 15 + 0 + 0) = 62" by code_simp
  then show ?thesis
    by (simp add: totalScore_def scenario_conceptScore scenario_depthScore
        scenario_examplesScore scenario_structureScore scenario_technicalScore)
qed

text \<open>
  Claim C2, as stated, fails: the answer contains \<open>bias-variance\<close>, so the substring match
  finds \<open>variance\<close> as well as \<open>bias\<close>. The scorer counts 2 of 2 concepts, not 1 of 2, and
  the concept-coverage sub-score is 40, not 20.
\<close>

theorem scenario_counts_one_concept_counterexample:
  "\<not> (conceptsCovered
         ''The bias-variance tradeoff means... for example, high bias models underfit.''
         [''bias'', ''variance''] = 1
      \<and> conceptScore
         ''The bias-variance tradeoff means... for example, high bias models underfit.''
         [''bias'', ''variance''] = 20)"
  by code_simp

text \<open>
  Claim C2, amended. For the scenario's answer and concepts the scorer counts both concepts
  as mentioned (case-insensitive substring match), so the concept-coverage sub-score is
  (2/2) * 40 = 40, and the examples bonus is 15 because the answer contains \<open>for example\<close>.
  The total score is the capped, rounded sum of these and the depth, structure and
  role-vocabulary contributions, and the tier follows from it by the thresholds: for every
  role the score is 62 and the tier partial.
\<close>

theorem scenario_counts_both_concepts:
  "coveredConcepts scenarioAnswer scenarioConcepts = [''bias'', ''variance'']
   \<and> conceptsCovered scenarioAnswer scenarioConcepts = 2
   \<and> conceptScore scenarioAnswer scenarioConcepts = 2 / 2 * 40
   \<and> str_includes (toLowerCase scenarioAnswer) ''for example''
   \<and> examplesScore scenarioAnswer = 15
   \<and> score (evaluateAnswerIntelligently q scenarioAnswer scenarioConcepts r)
       = min 100 (Math_round (conceptScore scenarioAnswer scenarioConcepts
                    + depthScore scenarioAnswer + examplesScore scenarioAnswer
                    + structureScore scenarioAnswer + technicalScore scenarioAnswer r))
   \<and> score (evaluateAnswerIntelligently q scenarioAnswer scenarioConcepts r) = 62
   \<and> correctness (evaluateAnswerIntelligently q scenarioAnswer scenarioConcepts r)
       = tierOf (score (evaluateAnswerIntelligently q scenarioAnswer scenarioConcepts r))
   \<and> correctness (evaluateAnswerIntelligently q scenarioAnswer scenarioConcepts r) = Partial"
proof -
  have inc: "str_includes (toLowerCase scenarioAnswer) ''for example''"
    unfolding scenarioAnswer_def by code_simp
  have tot: "totalScore scenarioAnswer scenarioConcepts r
      = min 100 (Math_round (conceptScore scenarioAnswer scenarioConcepts
                    + depthScore scenarioAnswer + examplesScore scenarioAnswer
                    + structureScore scenarioAnswer + technicalScore scenarioAnswer r))"
    by (simp only: totalScore_def)
  have tier: "tierOf 62 = Partial"
    by (simp add: tierOf_def)
  show ?thesis
    using inc tot tier
    by (simp add: conceptsCovered_def scenario_covered scenario_conceptScore
        scenario_examplesScore evaluate_score evaluate_tier scenario_total)
qed

subsection \<open>The answer that is not given\<close>

lemma no_answer_path:
  assumes "strOr (q_cleanedAnswer q) (strOr (q_userAnswer q) []) = a"
    and "a = [] \<or> trim a = []"
  shows "score (analyzeSingleAnswerIntelligently q r i) = 0
     \<and> correctness (analyzeSingleAnswerIntelligently q r i) = Incorrect
     \<and> scoreReason (analyzeSingleAnswerIntelligently q r i) = ''No answer given - score 0%''"
  using assms by (auto simp: analyzeSingleAnswerIntelligently_def Let_def)

text \<open>
  Claim C3. The analysis of a question whose cleaned answer is empty should have score 0,
  tier incorrect and the rationale \<open>No answer given - score 0%\<close>. The code reads the answer as
  \<open>q.cleanedAnswer || q.userAnswer || ''\<close>, and the empty string is falsy: a cleaned answer
  that is empty gives way to the raw answer. With the raw answer \<open>um\<close>, which the transcript
  cleaner reduces to the empty string, the analysis has score 31 and a rationale that
  describes a scored answer, also when \<open>evaluateInterview\<close> cleans and analyses that answer.
\<close>

theorem empty_cleaned_answer_is_scored:
  "score (analyzeSingleAnswerIntelligently
            \<lparr>q_question = Some ''Tell me about yourself'', q_userAnswer = Some ''um'',
             q_cleanedAnswer = Some [], q_expectedConcepts = Some []\<rparr>
            ''Data Scientist'' 0) = 31
   \<and> scoreReason (analyzeSingleAnswerIntelligently
            \<lparr>q_question = Some ''Tell me about yourself'', q_userAnswer = Some ''um'',
             q_cleanedAnswer = Some [], q_expectedConcepts = Some []\<rparr>
            ''Data Scientist'' 0)
       = ''Score: 31% - Missed all key concepts, Missing concrete examples, Answer too brief''
   \<and> cleanedAnswer (analyzeSingleAnswerIntelligently
            \<lparr>q_question = Some ''Tell me about yourself'', q_userAnswer = Some ''um'',
             q_cleanedAnswer = Some [], q_expectedConcepts = Some []\<rparr>
            ''Data Scientist'' 0) = ''um''
   \<and> cleanTranscript ''um'' = []
   \<and> map score (questionAnalyses (evaluateInterview (Some
           \<lparr>sd_role = Some ''Data Scientist'',
            sd_questions = Some [\<lparr>q_question = Some ''Tell me about yourself'',
                                   q_userAnswer = Some ''um'', q_cleanedAnswer = None,
                                   q_expectedConcepts = Some []\<rparr>]\<rparr>))) = [31]"
  by code_simp

section \<open>Properties of the session report\<close>



lemma report_overall: "overallScore (generateIntelligentReport as) = meanScore as"
  by (simp add: generateIntelligentReport_def Let_def)



lemma generateIntelligentReport_of_none: "overallScore (generateIntelligentReport []) = NaN"
  by (simp add: report_overall meanScore_def)


section \<open>Properties of the history store\<close>

lemma getHistory_save:
  "accepts st (take maxHistoryItems (d\<lparr>iv_id := Some (strOr (iv_id d) fid), iv_savedAt := Some now\<rparr> # getHistory st))
   \<Longrightarrow> getHistory (snd (saveInterview now fid d st))
       = take maxHistoryItems (d\<lparr>iv_id := Some (strOr (iv_id d) fid), iv_savedAt := Some now\<rparr> # getHistory st)"
  by (auto simp: saveInterview_def Let_def getHistory_def)

lemma save_bounded:
  "length (getHistory st) \<le> maxHistoryItems
   \<Longrightarrow> length (getHistory (snd (saveInterview now fid d st))) \<le> maxHistoryItems"
  by (auto simp: saveInterview_def Let_def getHistory_def maxHistoryItems_def)

lemma delete_bounded:
  "length (getHistory st) \<le> maxHistoryItems
   \<Longrightarrow> length (getHistory (snd (deleteInterview i st))) \<le> maxHistoryItems"
  by (auto simp: deleteInterview_def Let_def getHistory_def intro: le_trans [OF length_filter_le])

lemma clear_bounded:
  "length (getHistory st) \<le> maxHistoryItems
   \<Longrightarrow> length (getHistory (snd (clearHistory st))) \<le> maxHistoryItems"
  by (auto simp: clearHistory_def getHistory_def)

lemma bounded_without_import:
  "length (getHistory st) \<le> maxHistoryItems \<Longrightarrow> list_all (\<lambda>op. \<not> isImport op) ops
   \<Longrightarrow> length (getHistory (runOps P ops st)) \<le> maxHistoryItems"
proof (induction ops arbitrary: st)
  case Nil
  then show ?case by simp
next
  case (Cons op ops)
  have "length (getHistory (applyOp P op st)) \<le> maxHistoryItems"
    using Cons.prems by (cases op) (simp_all add: save_bounded delete_bounded clear_bounded isImport_def)
  with Cons show ?case by simp
qed

lemma save_evicts_oldest:
  assumes "length (getHistory st) = 50"
    and "accepts st (d\<lparr>iv_id := Some (strOr (iv_id d) fid), iv_savedAt := Some now\<rparr> # butlast (getHistory st))"
  shows "getHistory (snd (saveInterview now fid d st))
       = d\<lparr>iv_id := Some (strOr (iv_id d) fid), iv_savedAt := Some now\<rparr> # butlast (getHistory st)"
  using assms by (auto simp: saveInterview_def Let_def getHistory_def maxHistoryItems_def butlast_conv_take)

text \<open>
  Claim C5. The store should never hold more than 50 records. \<open>saveInterview\<close> truncates to
  \<open>maxHistoryItems\<close>, and deleting and clearing only shrink the history, but \<open>importData\<close>
  writes the imported array as it is: after importing a file with 51 records into an empty
  store, the store holds 51 records.
\<close>

theorem import_exceeds_limit:
  "length (getHistory (snd (importData
             (\<lambda>t. HistoryArray (replicate 51 (sampleInterview ''int_1_a'' 70)))
             ''{ history: [51 records], exportDate: 2024-01-01, version: 1.0 }''
             (sampleStore [])))) = 51
   \<and> maxHistoryItems = 50"
  by (simp add: importData_def sampleStore_def getHistory_def maxHistoryItems_def)




lemma filter_absent:
  "Some ident \<notin> iv_id ` set zs \<Longrightarrow> filter (\<lambda>i. iv_id i \<noteq> Some ident) zs = zs"
  by (force simp: filter_id_conv)

lemma deleteInterview_write_fails:
  "\<not> accepts st (filter (\<lambda>i. iv_id i \<noteq> Some ident) (getHistory st))
   \<Longrightarrow> deleteInterview ident st = (False, st)"
  by (simp add: deleteInterview_def Let_def)

text \<open>
  Claim C7, as stated, fails: \<open>deleteInterview\<close> does not look whether the identifier is
  present, and returns \<open>true\<close> for an identifier that no record has.
\<close>

theorem delete_missing_id_counterexample:
  "fst (deleteInterview ''int_9_missing'' (sampleStore [sampleInterview ''int_1_a'' 70])) \<noteq> False"
  by (simp add: deleteInterview_def sampleStore_def Let_def)

text \<open>
  Claim C7, amended. When the write to the device succeeds, \<open>deleteInterview\<close> returns \<open>true\<close>
  whether or not the identifier is present. The history it leaves is the old one without
  the records of that identifier, the others in their order: unchanged when no record has
  the identifier, and without exactly that record when one record has it.
\<close>

theorem deleteInterview_removes_by_id:
  assumes "accepts st (filter (\<lambda>i. iv_id i \<noteq> Some ident) (getHistory st))"
  shows "fst (deleteInterview ident st) = True
     \<and> getHistory (snd (deleteInterview ident st))
         = filter (\<lambda>i. iv_id i \<noteq> Some ident) (getHistory st)
     \<and> (Some ident \<notin> iv_id ` set (getHistory st)
          \<longrightarrow> getHistory (snd (deleteInterview ident st)) = getHistory st)
     \<and> (\<forall>xs r ys. getHistory st = xs @ r # ys \<and> iv_id r = Some ident
            \<and> Some ident \<notin> iv_id ` set (xs @ ys)
          \<longrightarrow> getHistory (snd (deleteInterview ident st)) = xs @ ys)"
proof -
  let ?f = "filter (\<lambda>i. iv_id i \<noteq> Some ident) (getHistory st)"
  have d: "deleteInterview ident st = (True, st\<lparr>item := History ?f, events := events st + 1\<rparr>)"
    using assms by (simp add: deleteInterview_def Let_def)
  have h: "getHistory (snd (deleteInterview ident st)) = ?f"
    by (simp add: d getHistory_def)
  have a: "Some ident \<notin> iv_id ` set (getHistory st) \<longrightarrow> ?f = getHistory st"
    by (force simp: filter_id_conv)
  have b: "\<forall>xs r ys. getHistory st = xs @ r # ys \<and> iv_id r = Some ident
            \<and> Some ident \<notin> iv_id ` set (xs @ ys) \<longrightarrow> ?f = xs @ ys"
  proof (intro allI impI)
    fix xs r ys
    assume h: "getHistory st = xs @ r # ys \<and> iv_id r = Some ident
            \<and> Some ident \<notin> iv_id ` set (xs @ ys)"
    then have "Some ident \<notin> iv_id ` set xs" "Some ident \<notin> iv_id ` set ys"
      by auto
    then have "filter (\<lambda>i. iv_id i \<noteq> Some ident) xs = xs"
      "filter (\<lambda>i. iv_id i \<noteq> Some ident) ys = ys"
      by (simp_all add: filter_absent)
    with h show "?f = xs @ ys" by simp
  qed
  have t: "fst (deleteInterview ident st) = True"
    by (simp add: d)
  show ?thesis
    unfolding h using t a b by blast
qed

theorem deleteInterview_removes_by_id_witness:
  "accepts (sampleStore [sampleInterview ''int_1_a'' 70, sampleInterview ''int_2_b'' 80,
                         sampleInterview ''int_3_c'' 90])
     (filter (\<lambda>i. iv_id i \<noteq> Some ''int_2_b'')
        (getHistory (sampleStore [sampleInterview ''int_1_a'' 70, sampleInterview ''int_2_b'' 80,
                                  sampleInterview ''int_3_c'' 90])))
   \<and> fst (deleteInterview ''int_2_b''
            (sampleStore [sampleInterview ''int_1_a'' 70, sampleInterview ''int_2_b'' 80,
                          sampleInterview ''int_3_c'' 90])) = True
   \<and> getHistory (snd (deleteInterview ''int_2_b''
            (sampleStore [sampleInterview ''int_1_a'' 70, sampleInterview ''int_2_b'' 80,
                          sampleInterview ''int_3_c'' 90])))
       = [sampleInterview ''int_1_a'' 70, sampleInterview ''int_3_c'' 90]"
proof -
  let ?st = "sampleStore [sampleInterview ''int_1_a'' 70, sampleInterview ''int_2_b'' 80,
                          sampleInterview ''int_3_c'' 90]"
  have acc: "accepts ?st (filter (\<lambda>i. iv_id i \<noteq> Some ''int_2_b'') (getHistory ?st))"
    by (simp add: sampleStore_def)
  have f: "filter (\<lambda>i. iv_id i \<noteq> Some ''int_2_b'') (getHistory ?st)
      = [sampleInterview ''int_1_a'' 70, sampleInterview ''int_3_c'' 90]"
    by (simp add: sampleStore_def getHistory_def sampleInterview_def)
  show ?thesis
    using acc f deleteInterview_removes_by_id [OF acc] by simp
qed

lemma extractSkills_keys:
  "map fst (extractSkills ev r1 r2 r3 r4)
     = [''technical'', ''communication'', ''problemSolving'', ''experience'']"
  by (simp add: extractSkills_def Let_def)

lemma saved_record_skills:
  assumes "sd_questions sd = Some qs" and "\<And>h. accepts st h"
  shows "\<exists>st'. saveInterviewResult state nowIso nowMs savedIso freshId r1 r2 r3 r4 ev sd st = Inr st'
           \<and> map_option (map fst) (iv_skills (hd (getHistory st')))
               = Some [''technical'', ''communication'', ''problemSolving'', ''experience'']"
  using assms
  by (simp add: saveInterviewResult_def saveInterview_def Let_def getHistory_def
      extractSkills_keys maxHistoryItems_def)

text \<open>
  Claim C8. A persisted record should carry the five skills \<open>technical\<close>, \<open>communication\<close>,
  \<open>problemSolving\<close>, \<open>experience\<close> and \<open>culture\<close>. \<open>extractSkills\<close> builds four of them, for every
  evaluation and every draw of the random numbers: the record that \<open>saveInterviewResult\<close>
  stores for a session of one question has no \<open>culture\<close>.
\<close>

theorem persisted_skills_lack_culture:
  "map fst (extractSkills ev r1 r2 r3 r4)
     = [''technical'', ''communication'', ''problemSolving'', ''experience'']
   \<and> ''culture'' \<notin> set (map fst (extractSkills ev r1 r2 r3 r4))
   \<and> (\<exists>st'. saveInterviewResult
              \<lparr>sessionId = Some ''int_1_abc'', es_role = ''Data Scientist'',
               es_difficulty = ''mid'', startTime = 1000\<rparr>
              ''2024-05-01T10:01:00.000Z'' 61000 ''2024-05-01T10:01:00.001Z'' ''int_2_xyz''
              (1 / 2) (1 / 2) (1 / 2) (1 / 2)
              (evaluateInterview (Some
                 \<lparr>sd_role = Some ''Data Scientist'',
                  sd_questions = Some [\<lparr>q_question = Some ''Explain overfitting.'',
                                         q_userAnswer = Some ''The model memorises noise.'',
                                         q_cleanedAnswer = None,
                                         q_expectedConcepts = Some [''variance'']\<rparr>]\<rparr>))
              \<lparr>sd_role = Some ''Data Scientist'',
               sd_questions = Some [\<lparr>q_question = Some ''Explain overfitting.'',
                                      q_userAnswer = Some ''The model memorises noise.'',
                                      q_cleanedAnswer = None,
                                      q_expectedConcepts = Some [''variance'']\<rparr>]\<rparr>
              (sampleStore []) = Inr st'
          \<and> map_option (map fst) (iv_skills (hd (getHistory st')))
              = Some [''technical'', ''communication'', ''problemSolving'', ''experience''])"
proof -
  have acc: "\<And>h. accepts (sampleStore []) h"
    by (simp add: sampleStore_def)
  have k: "''culture'' \<notin> set (map fst (extractSkills ev r1 r2 r3 r4))"
    by (simp add: extractSkills_keys)
  show ?thesis
    using k extractSkills_keys [of ev r1 r2 r3 r4]
      saved_record_skills [of _ _ "sampleStore []", OF _ acc]
    by simp
qed



section \<open>Properties of the question parser\<close>































lemma tryParse_failures:
  "(matchArray resp = None \<longrightarrow> tryParseQuestions P T resp cnt = Inl NoJsonFound)
   \<and> (\<forall>m. matchArray resp = Some m \<and> P (removeNonPrintable (stripTags m)) = None
         \<longrightarrow> tryParseQuestions P T resp cnt = Inl JsonSyntaxError)"
  by (simp add: tryParseQuestions_def)




end
